theory Spec2Isabelle
  imports Main
begin

section \<open>Data model\<close>

text \<open>
  The embedded program is \<^verbatim>\<open>python/hopsworks/__init__.py\<close>: \<^verbatim>\<open>login\<close>,
  \<^verbatim>\<open>_prompt_project\<close> and \<^verbatim>\<open>logout\<close>, with the exception classes of
  \<^verbatim>\<open>python/hopsworks/client/exceptions.py\<close>.

  Python strings are HOL strings; a \<^typ>\<open>char\<close> stands for a code point below 256.
\<close>

text \<open>
  The exceptions that can leave the embedded functions. \<^verbatim>\<open>RestAPIError\<close> and
  \<^verbatim>\<open>ProjectException\<close> are classes of exceptions.py; \<^verbatim>\<open>IOError\<close> is raised by
  \<^verbatim>\<open>login\<close>, \<^verbatim>\<open>EOFError\<close> by \<^verbatim>\<open>input\<close> and \<^verbatim>\<open>getpass\<close> at the end of the
  input, \<^verbatim>\<open>TypeError\<close> by calling an object that is not callable. Each carries its message.
  \<^verbatim>\<open>OtherError\<close> is any other exception of the connection library.
\<close>

datatype exn =
    RestAPIError string
  | ProjectException string
  | IOError string
  | EOFError
  | TypeError
  | OtherError string

text \<open>A project as the platform returns it: \<^verbatim>\<open>proj.name\<close> and \<^verbatim>\<open>proj.get_url()\<close>.\<close>

record Project =
  name :: string
  url :: string

text \<open>
  The value of \<^verbatim>\<open>port\<close>: the \<^verbatim>\<open>int\<close> argument, or the \<^verbatim>\<open>str\<close> read from
  \<^verbatim>\<open>os.environ\<close> (the source does not convert it).
\<close>

datatype port_value = PortInt int | PortStr string

text \<open>
  A \<^verbatim>\<open>Connection\<close> object is known by the keyword arguments it was created with;
  \<open>None\<close> is an argument that was not passed, or passed as \<^verbatim>\<open>None\<close>.
\<close>

record conn_args =
  c_host :: "string option"
  c_port :: "port_value option"
  c_api_key_value :: "string option"
  c_api_key_file :: "string option"

text \<open>
  The connection library and the platform behind it are not part of the embedded files.
  They are a parameter of every function that calls them:
  \<^item> \<open>connect fs kw\<close> is \<^verbatim>\<open>Connection.connection(**kw)\<close> with the files \<open>fs\<close> on disk:
    \<open>None\<close> when a \<^verbatim>\<open>Connection\<close> is returned, \<open>Some e\<close> when \<open>e\<close> is raised;
  \<^item> \<open>get_projects c\<close> is \<^verbatim>\<open>c.get_projects()\<close>;
  \<^item> \<open>get_project c\<close> is \<^verbatim>\<open>c.get_project()\<close>.
  \<^verbatim>\<open>c.close()\<close> is taken to return: its effect is recorded in the state below.
\<close>

record platform =
  connect :: "(string \<rightharpoonup> string) \<Rightarrow> conn_args \<Rightarrow> exn option"
  get_projects :: "conn_args \<Rightarrow> exn + Project list"
  get_project :: "conn_args \<Rightarrow> exn + Project"

text \<open>
  The state the functions read and change:
  \<^item> \<open>environ\<close>: \<^verbatim>\<open>os.environ\<close>;
  \<^item> \<open>cwd\<close>: \<^verbatim>\<open>os.getcwd()\<close>;
  \<^item> \<open>files\<close>: the regular files on disk, path to content (permission bits are not modelled);
  \<^item> \<open>stdin\<close>: the lines the user will type, read by \<^verbatim>\<open>input\<close> and \<^verbatim>\<open>getpass\<close>;
  \<^item> \<open>stdout\<close>: the writes to standard output, oldest first: one entry for each
    \<^verbatim>\<open>print\<close> (its text and the newline) and one for each prompt of \<^verbatim>\<open>input\<close>;
  \<^item> \<open>saas_connection\<close>: the module variable \<^verbatim>\<open>_saas_connection\<close>: \<open>None\<close> is the
    placeholder \<^verbatim>\<open>Connection.connection\<close>, \<open>Some c\<close> is a \<^verbatim>\<open>Connection\<close> object;
  \<^item> \<open>opened\<close>: the \<^verbatim>\<open>Connection\<close> objects created so far, oldest first;
  \<^item> \<open>closed\<close>: the connections on which \<^verbatim>\<open>close()\<close> was called, oldest first.
\<close>

record world =
  environ :: "string \<rightharpoonup> string"
  cwd :: string
  files :: "string \<rightharpoonup> string"
  stdin :: "string list"
  stdout :: "string list"
  saas_connection :: "conn_args option"
  opened :: "conn_args list"
  closed :: "conn_args list"

section \<open>Python built-ins\<close>

definition NL :: string where
  "NL = [CHR 0x0A]"

definition TAB :: string where
  "TAB = [CHR 0x09]"

text \<open>\<^verbatim>\<open>print(s)\<close>\<close>

definition print :: "string \<Rightarrow> world \<Rightarrow> world" where
  "print s w = w\<lparr>stdout := stdout w @ [s @ NL]\<rparr>"

text \<open>\<^verbatim>\<open>input(prompt)\<close>: writes the prompt, reads a line; \<^verbatim>\<open>EOFError\<close> when none is left.\<close>

definition input :: "string \<Rightarrow> world \<Rightarrow> (exn + string) \<times> world" where
  "input prompt w =
     (let w1 = w\<lparr>stdout := stdout w @ [prompt]\<rparr>
      in case stdin w1 of
           [] \<Rightarrow> (Inl EOFError, w1)
         | l # ls \<Rightarrow> (Inr l, w1\<lparr>stdin := ls\<rparr>))"

text \<open>
  \<^verbatim>\<open>getpass.getpass(prompt=...)\<close>: the prompt goes to the terminal, not to standard
  output; the line is read without echo.
\<close>

definition getpass :: "world \<Rightarrow> (exn + string) \<times> world" where
  "getpass w =
     (case stdin w of
        [] \<Rightarrow> (Inl EOFError, w)
      | l # ls \<Rightarrow> (Inr l, w\<lparr>stdin := ls\<rparr>))"

text \<open>\<^verbatim>\<open>str.isspace\<close> of one code point below 256.\<close>

definition isspace :: "char \<Rightarrow> bool" where
  "isspace c =
     (let n = (of_char c :: nat)
      in (9 \<le> n \<and> n \<le> 13) \<or> (28 \<le> n \<and> n \<le> 32) \<or> n = 133 \<or> n = 160)"

text \<open>\<^verbatim>\<open>s.strip()\<close>\<close>

definition strip :: "string \<Rightarrow> string" where
  "strip s = rev (dropWhile isspace (rev (dropWhile isspace s)))"

definition isdigit :: "char \<Rightarrow> bool" where
  "isdigit c = (let n = (of_char c :: nat) in 48 \<le> n \<and> n \<le> 57)"

definition digit_val :: "char \<Rightarrow> nat" where
  "digit_val c = of_char c - 48"

text \<open>
  The digits of an \<^verbatim>\<open>int\<close> literal after its first digit, whose value so far is the
  first argument: digits, with single underscores between digits.
\<close>

fun int_digits :: "nat \<Rightarrow> string \<Rightarrow> nat option" where
  "int_digits acc [] = Some acc"
| "int_digits acc (c # cs) =
     (if isdigit c then int_digits (acc * 10 + digit_val c) cs
      else if c = CHR ''_'' then
        (case cs of
           [] \<Rightarrow> None
         | d # ds \<Rightarrow> if isdigit d then int_digits (acc * 10 + digit_val d) ds else None)
      else None)"

text \<open>
  \<^verbatim>\<open>int(s)\<close> of a string: surrounding whitespace is dropped, then an optional sign and a
  decimal literal; \<open>None\<close> is \<^verbatim>\<open>ValueError\<close>. (The limit on the number of digits of
  recent interpreters is not modelled.)
\<close>

definition unsigned_int :: "string \<Rightarrow> nat option" where
  "unsigned_int u =
     (case u of
        [] \<Rightarrow> None
      | c # cs \<Rightarrow> if isdigit c then int_digits (digit_val c) cs else None)"

definition py_int :: "string \<Rightarrow> int option" where
  "py_int s =
     (case strip s of
        [] \<Rightarrow> None
      | c # cs \<Rightarrow>
          if c = CHR ''-'' then map_option (\<lambda>n. - int n) (unsigned_int cs)
          else if c = CHR ''+'' then map_option int (unsigned_int cs)
          else map_option int (unsigned_int (c # cs)))"

text \<open>\<^verbatim>\<open>str(n)\<close> of an \<^verbatim>\<open>int\<close> that is not negative.\<close>

fun str_nat :: "nat \<Rightarrow> string" where
  "str_nat n =
     (if n < 10 then [char_of (48 + n)]
      else str_nat (n div 10) @ [char_of (48 + n mod 10)])"

declare str_nat.simps [simp del]

section \<open>The project selector\<close>

text \<open>
  The listing of \<^verbatim>\<open>_prompt_project\<close>:
  \<^verbatim>\<open>for index in range(len(saas_projects)):
      print("\t (" + str(index + 1) + ") " + saas_projects[index].name)\<close>
  The first argument is \<^verbatim>\<open>index\<close>, the second the projects from \<^verbatim>\<open>index\<close> on.
\<close>

fun print_projects :: "nat \<Rightarrow> Project list \<Rightarrow> world \<Rightarrow> world" where
  "print_projects index [] w = w"
| "print_projects index (p # ps) w =
     print_projects (index + 1) ps
       (print (TAB @ '' ('' @ str_nat (index + 1) @ '') '' @ name p) w)"

definition enter_prompt :: string where
  "enter_prompt = NL @ ''Enter project to access: ''"

definition msg_not_positive :: string where
  "msg_not_positive = ''Invalid input, must be greater than or equal to 1''"

definition msg_not_listed :: string where
  "msg_not_listed = ''Invalid input, should be an integer from the list of projects.''"

text \<open>
  The inner \<^verbatim>\<open>while True\<close> of \<^verbatim>\<open>_prompt_project\<close>, which is left only by
  \<^verbatim>\<open>return\<close> or by the \<^verbatim>\<open>EOFError\<close> of \<^verbatim>\<open>input\<close>. The source sets no bound on
  the number of turns; each turn reads one line, so on the lines of \<open>stdin\<close> the loop ends.
\<close>

function select_loop :: "Project list \<Rightarrow> world \<Rightarrow> (exn + Project) \<times> world" where
  "select_loop saas_projects w =
     (case input enter_prompt w of
        (Inl e, w1) \<Rightarrow> (Inl e, w1)
      | (Inr line, w1) \<Rightarrow>
          (case py_int line of
             None \<Rightarrow> select_loop saas_projects (print msg_not_listed w1)
           | Some project_index \<Rightarrow>
               if project_index \<le> 0 then
                 select_loop saas_projects (print msg_not_positive w1)
               else if nat (project_index - 1) < length saas_projects then
                 (Inr (saas_projects ! nat (project_index - 1)), w1)
               else select_loop saas_projects (print msg_not_listed w1)))"
  by pat_completeness auto
termination
  by (relation "measure (\<lambda>(ps, w). length (stdin w))")
     (auto simp: input_def print_def Let_def split: list.splits)

declare select_loop.simps [simp del]

text \<open>
  \<^verbatim>\<open>for proj in saas_projects: if proj.name == project: return proj\<close>;
  \<open>None\<close> when the loop ends without returning.
\<close>

fun search_project :: "Project list \<Rightarrow> string \<Rightarrow> Project option" where
  "search_project [] project = None"
| "search_project (proj # rest) project =
     (if name proj = project then Some proj else search_project rest project)"

text \<open>
  \<^verbatim>\<open>_prompt_project(valid_connection, project)\<close>. The outer \<^verbatim>\<open>while True\<close> runs its
  body once: the inner loop never ends normally.
\<close>

definition prompt_project ::
    "platform \<Rightarrow> conn_args \<Rightarrow> string option \<Rightarrow> world \<Rightarrow> (exn + Project) \<times> world" where
  "prompt_project P valid_connection project w =
     (case get_projects P valid_connection of
        Inl e \<Rightarrow> (Inl e, w)
      | Inr saas_projects \<Rightarrow>
          (case project of
             None \<Rightarrow>
               if length saas_projects = 0 then
                 (Inl (ProjectException ''Could not find any project''), w)
               else if length saas_projects = 1 then (Inr (saas_projects ! 0), w)
               else
                 select_loop saas_projects
                   (print_projects 0 saas_projects
                      (print (NL @ ''Multiple projects found. '' @ NL) w))
           | Some pn \<Rightarrow>
               (case search_project saas_projects pn of
                  Some proj \<Rightarrow> (Inr proj, w)
                | None \<Rightarrow> (Inl (ProjectException (''Could not find project '' @ pn)), w))))"

section \<open>Logout\<close>

text \<open>
  \<^verbatim>\<open>logout()\<close>: a \<^verbatim>\<open>Connection\<close> object is closed, and the module variable is the
  placeholder again.
\<close>

definition logout :: "world \<Rightarrow> world" where
  "logout w =
     (case saas_connection w of
        Some c \<Rightarrow> w\<lparr>closed := closed w @ [c], saas_connection := None\<rparr>
      | None \<Rightarrow> w\<lparr>saas_connection := None\<rparr>)"

section \<open>Login\<close>

text \<open>
  The arguments of \<^verbatim>\<open>login\<close>. \<open>None\<close> is an argument left out (or passed as
  \<^verbatim>\<open>None\<close>); for \<open>port\<close> the default \<^verbatim>\<open>443\<close> then applies.
\<close>

record login_args =
  host :: "string option"
  port :: "int option"
  project :: "string option"
  api_key_value :: "string option"
  api_key_file :: "string option"

definition default_host :: string where
  "default_host = ''c.app.hopsworks.ai''"

text \<open>The value of the parameter \<^verbatim>\<open>port\<close> when the body starts.\<close>

definition port_param :: "login_args \<Rightarrow> int" where
  "port_param a = (case port a of None \<Rightarrow> 443 | Some p \<Rightarrow> p)"

text \<open>
  \<^verbatim>\<open>_saas_connection = _saas_connection(**kw)\<close>: the call creates a connection when the
  variable holds the placeholder; a \<^verbatim>\<open>Connection\<close> object is not callable. When the
  call raises, the variable is not assigned.
\<close>

definition call_saas_connection ::
    "platform \<Rightarrow> conn_args \<Rightarrow> world \<Rightarrow> (exn + conn_args) \<times> world" where
  "call_saas_connection P kw w =
     (case saas_connection w of
        Some c \<Rightarrow> (Inl TypeError, w)
      | None \<Rightarrow>
          (case connect P (files w) kw of
             Some e \<Rightarrow> (Inl e, w)
           | None \<Rightarrow> (Inr kw, w\<lparr>saas_connection := Some kw, opened := opened w @ [kw]\<rparr>)))"

text \<open>\<^verbatim>\<open>print("\nLogged in to project, explore it here " + project_obj.get_url())\<close>\<close>

definition logged_in :: "Project \<Rightarrow> world \<Rightarrow> world" where
  "logged_in project_obj w =
     print (NL @ ''Logged in to project, explore it here '' @ url project_obj) w"

text \<open>Lines 104 to 108: inside the platform, the current project of an implicit connection.\<close>

definition login_inside :: "platform \<Rightarrow> world \<Rightarrow> (exn + Project) \<times> world" where
  "login_inside P w =
     (case call_saas_connection P
             \<lparr>c_host = None, c_port = None, c_api_key_value = None, c_api_key_file = None\<rparr> w of
        (Inl e, w1) \<Rightarrow> (Inl e, w1)
      | (Inr c, w1) \<Rightarrow>
          (case get_project P c of
             Inl e \<Rightarrow> (Inl e, w1)
           | Inr project_obj \<Rightarrow> (Inr project_obj, logged_in project_obj w1)))"

text \<open>Lines 116 to 122: \<^verbatim>\<open>api_key\<close> from the environment.\<close>

definition env_api_key :: "login_args \<Rightarrow> world \<Rightarrow> string option" where
  "env_api_key a w =
     (if api_key_value a = None \<and> api_key_file a = None
         \<and> environ w ''HOPSWORKS_API_KEY'' \<noteq> None
      then environ w ''HOPSWORKS_API_KEY'' else None)"

text \<open>Lines 125 and 126: \<^verbatim>\<open>project\<close>.\<close>

definition login_project :: "login_args \<Rightarrow> world \<Rightarrow> string option" where
  "login_project a w =
     (if project a = None \<and> environ w ''HOPSWORKS_PROJECT'' \<noteq> None
      then environ w ''HOPSWORKS_PROJECT'' else project a)"

text \<open>Lines 129 to 132: \<^verbatim>\<open>host\<close>.\<close>

definition login_host :: "login_args \<Rightarrow> world \<Rightarrow> string" where
  "login_host a w =
     (case host a of
        Some h \<Rightarrow> h
      | None \<Rightarrow>
          (case environ w ''HOPSWORKS_HOST'' of
             Some h \<Rightarrow> h
           | None \<Rightarrow> default_host))"

text \<open>Lines 135 and 136: \<^verbatim>\<open>port\<close>.\<close>

definition login_port :: "login_args \<Rightarrow> world \<Rightarrow> port_value" where
  "login_port a w =
     (if port_param a = 443 then
        (case environ w ''HOPSWORKS_PORT'' of
           Some s \<Rightarrow> PortStr s
         | None \<Rightarrow> PortInt (port_param a))
      else PortInt (port_param a))"

text \<open>Line 140: \<^verbatim>\<open>api_key_path\<close>.\<close>

definition api_key_path :: "world \<Rightarrow> string" where
  "api_key_path w = cwd w @ ''/.hw_api_key''"

text \<open>\<^verbatim>\<open>os.remove(path)\<close>\<close>

definition os_remove :: "string \<Rightarrow> world \<Rightarrow> exn option \<times> world" where
  "os_remove path w =
     (case files w path of
        None \<Rightarrow> (Some (OtherError ''FileNotFoundError''), w)
      | Some content \<Rightarrow> (None, w\<lparr>files := (files w)(path := None)\<rparr>))"

text \<open>
  The result of a block of \<^verbatim>\<open>login\<close> that can end the function: \<open>Inl r\<close> when the
  function returns or raises \<open>r\<close> there, \<open>Inr x\<close> when control goes on with \<open>x\<close>.
\<close>

type_synonym 'a block = "((exn + Project) + 'a) \<times> world"

text \<open>
  Lines 168 to 171, the handler of the cached login:
  \<^verbatim>\<open>except RestAPIError: logout(); os.remove(api_key_path)\<close>.
  Any other exception leaves the function.
\<close>

definition cached_except :: "exn \<Rightarrow> string \<Rightarrow> world \<Rightarrow> unit block" where
  "cached_except e path w =
     (case e of
        RestAPIError m \<Rightarrow>
          (case os_remove path (logout w) of
             (Some e', w1) \<Rightarrow> (Inl (Inl e'), w1)
           | (None, w1) \<Rightarrow> (Inr (), w1))
      | _ \<Rightarrow> (Inl (Inl e), w))"

text \<open>Lines 161 to 171: the login with the cached key file.\<close>

definition login_cached ::
    "platform \<Rightarrow> string \<Rightarrow> port_value \<Rightarrow> string option \<Rightarrow> string \<Rightarrow> world \<Rightarrow> unit block" where
  "login_cached P h pt pn path w =
     (case call_saas_connection P
             \<lparr>c_host = Some h, c_port = Some pt, c_api_key_value = None,
              c_api_key_file = Some path\<rparr> w of
        (Inl e, w1) \<Rightarrow> cached_except e path w1
      | (Inr c, w1) \<Rightarrow>
          (case prompt_project P c pn w1 of
             (Inl e, w2) \<Rightarrow> cached_except e path w2
           | (Inr project_obj, w2) \<Rightarrow> (Inl (Inr project_obj), logged_in project_obj w2)))"

text \<open>
  Lines 144 to 171: the key of the argument, of the file of the argument, or the login with
  the cached file; \<open>api_key\<close> is the value of lines 116 to 122.
\<close>

definition login_api_key ::
    "platform \<Rightarrow> login_args \<Rightarrow> string option \<Rightarrow> string \<Rightarrow> port_value \<Rightarrow> string option
       \<Rightarrow> world \<Rightarrow> string option block" where
  "login_api_key P a api_key h pt pn w =
     (case api_key_value a of
        Some v \<Rightarrow> (Inr (Some v), w)
      | None \<Rightarrow>
          (case api_key_file a of
             Some f \<Rightarrow>
               (case files w f of
                  Some content \<Rightarrow> (Inr (Some content), w)
                | None \<Rightarrow>
                    (Inl (Inl (IOError (''Could not find api key file on path: '' @ f))), w))
           | None \<Rightarrow>
               if files w (api_key_path w) \<noteq> None \<and> h = default_host then
                 (case login_cached P h pt pn (api_key_path w) w of
                    (Inl r, w1) \<Rightarrow> (Inl r, w1)
                  | (Inr u, w1) \<Rightarrow> (Inr api_key, w1))
               else (Inr api_key, w)))"

text \<open>
  Lines 173 to 184: the key is asked for and written, stripped, to the cache file
  (\<^verbatim>\<open>O_WRONLY | O_CREAT | O_TRUNC\<close>: the file is created or replaced).
\<close>

definition login_ask_key ::
    "string option \<Rightarrow> string \<Rightarrow> string \<Rightarrow> world \<Rightarrow> (exn + string option) \<times> world" where
  "login_ask_key api_key h path w =
     (if api_key = None \<and> h = default_host then
        (case getpass
                (print (''Copy your Api Key (first register/login): ''
                          @ ''https://c.app.hopsworks.ai/account/api/generated'') w) of
           (Inl e, w1) \<Rightarrow> (Inl e, w1)
         | (Inr k, w1) \<Rightarrow> (Inr (Some k), w1\<lparr>files := (files w1)(path \<mapsto> strip k)\<rparr>))
      else (Inr api_key, w))"

text \<open>Lines 189 to 191: \<^verbatim>\<open>except RestAPIError as e: logout(); raise e\<close>.\<close>

definition connect_except :: "exn \<Rightarrow> world \<Rightarrow> (exn + Project) \<times> world" where
  "connect_except e w =
     (case e of
        RestAPIError m \<Rightarrow> (Inl e, logout w)
      | _ \<Rightarrow> (Inl e, w))"

text \<open>Lines 186 to 194: the connection with the key, and the selection of the project.\<close>

definition login_connect ::
    "platform \<Rightarrow> string \<Rightarrow> port_value \<Rightarrow> string option \<Rightarrow> string option \<Rightarrow> world
       \<Rightarrow> (exn + Project) \<times> world" where
  "login_connect P h pt api_key pn w =
     (case call_saas_connection P
             \<lparr>c_host = Some h, c_port = Some pt, c_api_key_value = api_key,
              c_api_key_file = None\<rparr> w of
        (Inl e, w1) \<Rightarrow> connect_except e w1
      | (Inr c, w1) \<Rightarrow>
          (case prompt_project P c pn w1 of
             (Inl e, w2) \<Rightarrow> connect_except e w2
           | (Inr project_obj, w2) \<Rightarrow> (Inr project_obj, logged_in project_obj w2)))"

text \<open>\<^verbatim>\<open>login(host, port, project, api_key_value, api_key_file)\<close>\<close>

definition login :: "platform \<Rightarrow> login_args \<Rightarrow> world \<Rightarrow> (exn + Project) \<times> world" where
  "login P a w_in =
     (let w = logout w_in
      in if environ w ''REST_ENDPOINT'' \<noteq> None then login_inside P w
         else
           (case login_api_key P a (env_api_key a w) (login_host a w) (login_port a w)
                   (login_project a w) w of
              (Inl r, w1) \<Rightarrow> (r, w1)
            | (Inr api_key, w1) \<Rightarrow>
                (case login_ask_key api_key (login_host a w) (api_key_path w) w1 of
                   (Inl e, w2) \<Rightarrow> (Inl e, w2)
                 | (Inr api_key', w2) \<Rightarrow>
                     login_connect P (login_host a w) (login_port a w) api_key'
                       (login_project a w) w2)))"

section \<open>Sample inputs\<close>

text \<open>Three projects, a platform that shows a given list of projects, and an empty state.\<close>

definition project_a :: Project where
  "project_a = \<lparr>name = ''a'', url = ''https://c.app.hopsworks.ai/p/1''\<rparr>"

definition project_b :: Project where
  "project_b = \<lparr>name = ''b'', url = ''https://c.app.hopsworks.ai/p/2''\<rparr>"

definition project_c :: Project where
  "project_c = \<lparr>name = ''c'', url = ''https://c.app.hopsworks.ai/p/3''\<rparr>"

definition showing :: "Project list \<Rightarrow> platform" where
  "showing ps =
     \<lparr>connect = (\<lambda>fs kw. None),
      get_projects = (\<lambda>c. Inr ps),
      get_project = (\<lambda>c. Inl (RestAPIError ''unreachable''))\<rparr>"

definition no_args :: login_args where
  "no_args = \<lparr>host = None, port = None, project = None, api_key_value = None,
               api_key_file = None\<rparr>"

definition some_connection :: conn_args where
  "some_connection =
     \<lparr>c_host = Some ''my.hopsworks.server'', c_port = Some (PortInt 8181),
      c_api_key_value = Some ''DKN8DndwaAjdf98FFNSxwdVKx'', c_api_key_file = None\<rparr>"

definition fresh_world :: world where
  "fresh_world =
     \<lparr>environ = Map.empty, cwd = ''/home/user'', files = Map.empty, stdin = [], stdout = [],
      saas_connection = None, opened = [], closed = []\<rparr>"

text \<open>
  A platform that accepts one key, given as a value or in a file, and shows a given list of
  projects; and a platform that accepts every connection and fails every request after.
\<close>

definition checking_key :: "string \<Rightarrow> Project list \<Rightarrow> platform" where
  "checking_key good ps =
     \<lparr>connect = (\<lambda>fs kw.
        if (case c_api_key_value kw of
              Some v \<Rightarrow> Some v
            | None \<Rightarrow> (case c_api_key_file kw of Some f \<Rightarrow> fs f | None \<Rightarrow> None)) = Some good
        then None else Some (RestAPIError ''401 Unauthorized'')),
      get_projects = (\<lambda>c. Inr ps),
      get_project = (\<lambda>c. Inl (RestAPIError ''unreachable''))\<rparr>"

definition failing :: platform where
  "failing =
     \<lparr>connect = (\<lambda>fs kw. None),
      get_projects = (\<lambda>c. Inl (RestAPIError ''503 Service Unavailable'')),
      get_project = (\<lambda>c. Inl (RestAPIError ''503 Service Unavailable''))\<rparr>"



section \<open>Notions used in the statements\<close>

text \<open>The keyword arguments of the two connections of the external login.\<close>

abbreviation cached_args :: "string \<Rightarrow> port_value \<Rightarrow> string \<Rightarrow> conn_args" where
  "cached_args h pt path \<equiv>
     \<lparr>c_host = Some h, c_port = Some pt, c_api_key_value = None, c_api_key_file = Some path\<rparr>"

abbreviation key_args :: "string \<Rightarrow> port_value \<Rightarrow> string option \<Rightarrow> conn_args" where
  "key_args h pt k \<equiv>
     \<lparr>c_host = Some h, c_port = Some pt, c_api_key_value = k, c_api_key_file = None\<rparr>"

text \<open>The library raises no ProjectException of its own.\<close>

definition raises_no_project_exception :: "platform \<Rightarrow> bool" where
  "raises_no_project_exception P \<longleftrightarrow>
     (\<forall>fs kw m. connect P fs kw \<noteq> Some (ProjectException m))
     \<and> (\<forall>c m. get_projects P c \<noteq> Inl (ProjectException m))
     \<and> (\<forall>c m. get_project P c \<noteq> Inl (ProjectException m))"

text \<open>Two states agree on everything but the standard streams.\<close>

definition session_eq :: "world \<Rightarrow> world \<Rightarrow> bool" where
  "session_eq w w' \<longleftrightarrow>
     saas_connection w' = saas_connection w \<and> opened w' = opened w \<and> closed w' = closed w
     \<and> files w' = files w \<and> environ w' = environ w \<and> cwd w' = cwd w"


text \<open>
  The connections opened since \<open>os\<close> and closed since \<open>cs\<close>: all of them closed and the
  module variable the placeholder; or all but the last closed, and the last in the module
  variable.
\<close>

definition balanced :: "conn_args list \<Rightarrow> conn_args list \<Rightarrow> world \<Rightarrow> bool" where
  "balanced os cs w \<longleftrightarrow>
     saas_connection w = None \<and> (\<exists>xs. opened w = os @ xs \<and> closed w = cs @ xs)"

definition live :: "conn_args list \<Rightarrow> conn_args list \<Rightarrow> conn_args \<Rightarrow> world \<Rightarrow> bool" where
  "live os cs c w \<longleftrightarrow>
     saas_connection w = Some c \<and> (\<exists>xs. opened w = os @ xs @ [c] \<and> closed w = cs @ xs)"





section \<open>The project selector: properties\<close>

lemma search_project_find: "search_project ps n = find (\<lambda>p. name p = n) ps"
  by (induction ps) auto

text \<open>
  C7. When \<open>project_name\<close> is given, the selector returns the first project of the list
  whose name equals it; when there is none, it fails with the ProjectException whose message
  is "Could not find project " followed by the requested name. The state is unchanged.
\<close>

theorem prompt_project_named:
  assumes "get_projects P c = Inr ps"
  shows "prompt_project P c (Some n) w =
           (case find (\<lambda>p. name p = n) ps of
              Some p \<Rightarrow> (Inr p, w)
            | None \<Rightarrow> (Inl (ProjectException (''Could not find project '' @ n)), w))"
  using assms by (simp add: prompt_project_def search_project_find)

theorem prompt_project_named_witness:
  "get_projects (showing [project_a, project_b, project_c, project_b\<lparr>url := ''other''\<rparr>])
       some_connection
     = Inr [project_a, project_b, project_c, project_b\<lparr>url := ''other''\<rparr>]
   \<and> prompt_project (showing [project_a, project_b, project_c, project_b\<lparr>url := ''other''\<rparr>])
       some_connection (Some ''b'') fresh_world = (Inr project_b, fresh_world)
   \<and> prompt_project (showing [project_a, project_b, project_c, project_b\<lparr>url := ''other''\<rparr>])
       some_connection (Some ''z'') fresh_world
     = (Inl (ProjectException ''Could not find project z''), fresh_world)"
  using
    prompt_project_named [of "showing [project_a, project_b, project_c, project_b\<lparr>url := ''other''\<rparr>]"
      some_connection "[project_a, project_b, project_c, project_b\<lparr>url := ''other''\<rparr>]"
      "''b''" fresh_world]
    prompt_project_named [of "showing [project_a, project_b, project_c, project_b\<lparr>url := ''other''\<rparr>]"
      some_connection "[project_a, project_b, project_c, project_b\<lparr>url := ''other''\<rparr>]"
      "''z''" fresh_world]
  by (simp add: showing_def project_a_def project_b_def project_c_def)

text \<open>
  C8. When the session shows exactly one project and \<open>project_name\<close> is omitted, the
  selector returns that project and leaves the state as it was: nothing is written to
  standard output and no line of input is read.
\<close>

theorem prompt_project_single:
  assumes "get_projects P c = Inr [p]"
  shows "prompt_project P c None w = (Inr p, w)"
  using assms by (simp add: prompt_project_def)

theorem prompt_project_single_witness:
  "get_projects (showing [project_a]) some_connection = Inr [project_a]
   \<and> prompt_project (showing [project_a]) some_connection None
        (fresh_world\<lparr>stdin := [''1'']\<rparr>)
      = (Inr project_a, fresh_world\<lparr>stdin := [''1'']\<rparr>)"
  using prompt_project_single [of "showing [project_a]" some_connection project_a
      "fresh_world\<lparr>stdin := [''1'']\<rparr>"]
  by (simp add: showing_def)

text \<open>
  C2, as the code has it. When the session shows no project, the selector fails with a
  ProjectException for every \<open>project_name\<close>; the message is "Could not find any project"
  when the name is omitted and "Could not find project " followed by the name when it is
  given.
\<close>

theorem prompt_project_empty:
  assumes "get_projects P c = Inr []"
  shows "prompt_project P c pn w =
           (Inl (ProjectException
                   (case pn of
                      None \<Rightarrow> ''Could not find any project''
                    | Some n \<Rightarrow> ''Could not find project '' @ n)), w)"
  using assms by (simp add: prompt_project_def split: option.splits)

theorem prompt_project_empty_witness:
  "get_projects (showing []) some_connection = Inr []
   \<and> prompt_project (showing []) some_connection None fresh_world
      = (Inl (ProjectException ''Could not find any project''), fresh_world)
   \<and> prompt_project (showing []) some_connection (Some ''z'') fresh_world
      = (Inl (ProjectException ''Could not find project z''), fresh_world)"
  using prompt_project_empty [of "showing []" some_connection None fresh_world]
    prompt_project_empty [of "showing []" some_connection "Some ''z''" fresh_world]
  by (simp add: showing_def)

text \<open>
  C2, as the claim states it, fails: with no project shown and the name "z" given, the error
  is not the "Could not find any project" one.
\<close>

theorem prompt_project_empty_named_counterexample:
  "get_projects (showing []) some_connection = Inr []
   \<and> fst (prompt_project (showing []) some_connection (Some ''z'') fresh_world)
      = Inl (ProjectException ''Could not find project z'')
   \<and> fst (prompt_project (showing []) some_connection (Some ''z'') fresh_world)
      \<noteq> Inl (ProjectException ''Could not find any project'')"
  by (simp add: prompt_project_def showing_def)

lemma stdin_print [simp]: "stdin (print s w) = stdin w"
  by (simp add: print_def)

lemma stdin_print_projects [simp]: "stdin (print_projects i ps w) = stdin w"
  by (induction i ps w rule: print_projects.induct) simp_all

lemma py_int_0: "py_int ''0'' = Some 0"
  by (simp add: py_int_def strip_def isspace_def unsigned_int_def isdigit_def digit_val_def)

lemma py_int_x: "py_int ''x'' = None"
  by (simp add: py_int_def strip_def isspace_def unsigned_int_def isdigit_def digit_val_def)

lemma py_int_2: "py_int ''2'' = Some 2"
  by (simp add: py_int_def strip_def isspace_def unsigned_int_def isdigit_def digit_val_def)

lemma select_loop_0_x_2:
  assumes "2 \<le> length ps" and "stdin w = ''0'' # ''x'' # ''2'' # rest"
  shows "select_loop ps w =
           (Inr (ps ! 1),
            w\<lparr>stdin := rest,
              stdout := stdout w @ [enter_prompt, msg_not_positive @ NL, enter_prompt,
                                     msg_not_listed @ NL, enter_prompt]\<rparr>)"
proof -
  let ?w1 = "print msg_not_positive
               (w\<lparr>stdout := stdout w @ [enter_prompt], stdin := ''x'' # ''2'' # rest\<rparr>)"
  let ?w2 = "print msg_not_listed
               (?w1\<lparr>stdout := stdout ?w1 @ [enter_prompt], stdin := ''2'' # rest\<rparr>)"
  have first: "select_loop ps w = select_loop ps ?w1"
    using assms(2) by (subst select_loop.simps) (simp add: input_def py_int_0)
  have second: "select_loop ps ?w1 = select_loop ps ?w2"
    by (subst select_loop.simps) (simp add: input_def py_int_x)
  have third: "select_loop ps ?w2 =
      (Inr (ps ! 1), ?w2\<lparr>stdout := stdout ?w2 @ [enter_prompt], stdin := rest\<rparr>)"
    using assms(1) by (subst select_loop.simps) (simp add: input_def py_int_2)
  show ?thesis
    unfolding first second third by (simp add: print_def)
qed

text \<open>
  C6. With two or more projects shown, \<open>project_name\<close> omitted and the lines "0", "x", "2"
  typed, the selector prints the heading and the list once, asks three times (so twice
  again), answers the first line with the message for an entry that is not positive and the
  second with the message for an entry that is not a listed integer, and returns the second
  project of the list; the three lines are read and no more.
\<close>

theorem prompt_project_0_x_2:
  assumes "get_projects P c = Inr ps" and "2 \<le> length ps"
    and "stdin w = ''0'' # ''x'' # ''2'' # rest"
  shows "prompt_project P c None w =
           (let w1 = print_projects 0 ps (print (NL @ ''Multiple projects found. '' @ NL) w)
            in (Inr (ps ! 1),
                w1\<lparr>stdin := rest,
                   stdout := stdout w1 @ [enter_prompt, msg_not_positive @ NL, enter_prompt,
                                           msg_not_listed @ NL, enter_prompt]\<rparr>))"
proof -
  let ?w1 = "print_projects 0 ps (print (NL @ ''Multiple projects found. '' @ NL) w)"
  have "stdin ?w1 = ''0'' # ''x'' # ''2'' # rest"
    using assms(3) by simp
  moreover have "ps \<noteq> []" "length ps \<noteq> Suc 0"
    using assms(2) by auto
  ultimately show ?thesis
    using select_loop_0_x_2 [OF assms(2), of ?w1 rest] assms(1)
    by (simp add: prompt_project_def Let_def)
qed

lemma str_nat_1: "str_nat (Suc 0) = ''1''"
  by code_simp

lemma str_nat_2: "str_nat (Suc (Suc 0)) = ''2''"
  by code_simp

lemma str_nat_3: "str_nat (Suc (Suc (Suc 0))) = ''3''"
  by code_simp

theorem prompt_project_0_x_2_witness:
  "get_projects (showing [project_a, project_b, project_c]) some_connection
     = Inr [project_a, project_b, project_c]
   \<and> 2 \<le> length [project_a, project_b, project_c]
   \<and> prompt_project (showing [project_a, project_b, project_c]) some_connection None
        (fresh_world\<lparr>stdin := [''0'', ''x'', ''2'', ''3'']\<rparr>)
      = (Inr project_b,
         fresh_world\<lparr>stdin := [''3''],
           stdout :=
             [NL @ ''Multiple projects found. '' @ NL @ NL,
              TAB @ '' (1) a'' @ NL,
              TAB @ '' (2) b'' @ NL,
              TAB @ '' (3) c'' @ NL,
              NL @ ''Enter project to access: '',
              ''Invalid input, must be greater than or equal to 1'' @ NL,
              NL @ ''Enter project to access: '',
              ''Invalid input, should be an integer from the list of projects.'' @ NL,
              NL @ ''Enter project to access: '']\<rparr>)"
  using prompt_project_0_x_2 [of "showing [project_a, project_b, project_c]" some_connection
      "[project_a, project_b, project_c]" "fresh_world\<lparr>stdin := [''0'', ''x'', ''2'', ''3'']\<rparr>"
      "[''3'']"]
  by (simp add: showing_def fresh_world_def print_def str_nat_1 str_nat_2 str_nat_3
      project_a_def project_b_def project_c_def enter_prompt_def msg_not_positive_def
      msg_not_listed_def)

section \<open>Logout: properties\<close>

text \<open>
  C9. Logout returns (it is a total function of the state), and a second logout right after
  the first changes nothing. After a logout the module variable is the placeholder, and a
  logout in a state where it is the placeholder already leaves the state as it is.
\<close>

theorem logout_idempotent:
  "logout (logout w) = logout w
   \<and> saas_connection (logout w) = None
   \<and> logout (w\<lparr>saas_connection := None\<rparr>) = w\<lparr>saas_connection := None\<rparr>"
  by (simp add: logout_def split: option.splits)

theorem logout_idempotent_witness:
  "logout (logout (fresh_world\<lparr>saas_connection := Some some_connection\<rparr>))
     = fresh_world\<lparr>closed := [some_connection]\<rparr>
   \<and> logout (fresh_world\<lparr>saas_connection := Some some_connection\<rparr>)
     = fresh_world\<lparr>closed := [some_connection]\<rparr>
   \<and> logout fresh_world = fresh_world"
  using logout_idempotent [of "fresh_world\<lparr>saas_connection := Some some_connection\<rparr>"]
    logout_idempotent [of fresh_world]
  by (simp add: logout_def fresh_world_def)

section \<open>Login: properties\<close>

lemma session_eq_refl [simp]: "session_eq w w"
  by (simp add: session_eq_def)

lemma session_eq_trans: "session_eq w w1 \<Longrightarrow> session_eq w1 w2 \<Longrightarrow> session_eq w w2"
  by (simp add: session_eq_def)

lemma session_eq_print [simp]: "session_eq w (print s w)"
  by (simp add: session_eq_def print_def)

lemma session_eq_print_projects [simp]: "session_eq w (print_projects i ps w)"
proof (induction i ps w rule: print_projects.induct)
  case (2 index p ps w)
  have "session_eq w (print (TAB @ '' ('' @ str_nat (index + 1) @ '') '' @ name p) w)"
    by simp
  from session_eq_trans [OF this "2.IH"] show ?case
    by simp
qed simp

lemma input_cases:
  "input s w = (r, w1) \<Longrightarrow> session_eq w w1 \<and> (r = Inl EOFError \<or> (\<exists>l. r = Inr l))"
  by (auto simp: input_def Let_def session_eq_def split: list.splits)


lemma select_loop_frame:
  "select_loop ps w = (r, w') \<Longrightarrow> session_eq w w' \<and> (r = Inl EOFError \<or> (\<exists>p. r = Inr p))"
proof (induction ps w arbitrary: r w' rule: select_loop.induct)
  case (1 ps w)
  obtain ri w1 where i: "input enter_prompt w = (ri, w1)"
    by (cases "input enter_prompt w")
  from input_cases [OF i] have s1: "session_eq w w1" and ri: "ri = Inl EOFError \<or> (\<exists>l. ri = Inr l)"
    by auto
  from ri show ?case
  proof
    assume "ri = Inl EOFError"
    with "1.prems" i s1 show ?thesis
      by (subst (asm) select_loop.simps) auto
  next
    assume "\<exists>l. ri = Inr l"
    then obtain l where l: "ri = Inr l" ..
    note il = i [unfolded l]
    show ?thesis
    proof (cases "py_int l")
      case None
      with "1.prems" il have "select_loop ps (print msg_not_listed w1) = (r, w')"
        by (subst (asm) select_loop.simps) simp
      from "1.IH"(1) [OF il [symmetric] refl None this]
      show ?thesis
        using session_eq_trans [OF s1] session_eq_trans [OF session_eq_print] by blast
    next
      case (Some k)
      consider "k \<le> 0" | "0 < k" "nat (k - 1) < length ps" | "0 < k" "\<not> nat (k - 1) < length ps"
        by linarith
      then show ?thesis
      proof cases
        case 1
        with "1.prems" il Some have "select_loop ps (print msg_not_positive w1) = (r, w')"
          by (subst (asm) select_loop.simps) simp
        from "1.IH"(2) [OF il [symmetric] refl Some 1 this]
        show ?thesis
          using session_eq_trans [OF s1] session_eq_trans [OF session_eq_print] by blast
      next
        case 2
        with "1.prems" il Some s1 show ?thesis
          by (subst (asm) select_loop.simps) auto
      next
        case 3
        with "1.prems" il Some have "select_loop ps (print msg_not_listed w1) = (r, w')"
          by (subst (asm) select_loop.simps) simp
        from 3 have "\<not> k \<le> 0" by simp
        from "1.IH"(3) [OF il [symmetric] refl Some this 3(2) \<open>select_loop ps (print msg_not_listed w1) = (r, w')\<close>]
        show ?thesis
          using session_eq_trans [OF s1] session_eq_trans [OF session_eq_print] by blast
      qed
    qed
  qed
qed


lemma prompt_project_frame:
  "prompt_project P c pn w = (r, w') \<Longrightarrow> session_eq w w'"
proof -
  assume a: "prompt_project P c pn w = (r, w')"
  show ?thesis
  proof (cases "get_projects P c")
    case (Inl e)
    with a show ?thesis by (simp add: prompt_project_def)
  next
    case (Inr ps)
    show ?thesis
    proof (cases "pn = None \<and> length ps \<noteq> 0 \<and> length ps \<noteq> 1")
      case True
      let ?w1 = "print_projects 0 ps (print (NL @ ''Multiple projects found. '' @ NL) w)"
      from True a Inr have "select_loop ps ?w1 = (r, w')"
        by (simp add: prompt_project_def)
      from select_loop_frame [OF this] have "session_eq ?w1 w'" ..
      moreover have "session_eq w ?w1"
        by (rule session_eq_trans [OF session_eq_print session_eq_print_projects])
      ultimately show ?thesis by (rule session_eq_trans [rotated])
    next
      case False
      with a Inr show ?thesis
        by (auto simp: prompt_project_def split: option.splits if_splits)
    qed
  qed
qed


lemma balanced_session_eq: "session_eq w w' \<Longrightarrow> balanced os cs w \<Longrightarrow> balanced os cs w'"
  by (simp add: session_eq_def balanced_def)

lemma live_session_eq: "session_eq w w' \<Longrightarrow> live os cs c w \<Longrightarrow> live os cs c w'"
  by (simp add: session_eq_def live_def)

lemma balanced_logout: "balanced (opened w) (closed (logout w)) (logout w)"
  by (auto simp: balanced_def logout_def split: option.splits)

lemma logout_live: "live os cs c w \<Longrightarrow> balanced os cs (logout w)"
  by (auto simp: balanced_def live_def logout_def)

lemma logout_balanced: "balanced os cs w \<Longrightarrow> logout w = w"
  by (auto simp: balanced_def logout_def)

lemma call_saas_connection_balanced:
  assumes "balanced os cs w" and "call_saas_connection P kw w = (r, w1)"
  shows "(case r of
            Inl e \<Rightarrow> w1 = w \<and> connect P (files w) kw = Some e
          | Inr c \<Rightarrow> c = kw \<and> connect P (files w) kw = None \<and> live os cs kw w1
                     \<and> files w1 = files w \<and> environ w1 = environ w \<and> cwd w1 = cwd w
                     \<and> stdin w1 = stdin w \<and> stdout w1 = stdout w)"
  using assms
  by (auto simp: call_saas_connection_def balanced_def live_def split: option.splits sum.splits)


lemma connect_except_cases:
  "connect_except e w = (if \<exists>m. e = RestAPIError m then (Inl e, logout w) else (Inl e, w))"
  by (cases e) (simp_all add: connect_except_def)

lemma login_connect_outcome:
  assumes b: "balanced os cs w" and l: "login_connect P h pt k pn w = (r, w')"
  shows "files w' = files w"
    and "r = Inl (RestAPIError m) \<Longrightarrow> balanced os cs w'"
    and "r = Inr p \<Longrightarrow> live os cs (key_args h pt k) w' \<and> (\<exists>w1 w2. prompt_project P (key_args h pt k) pn w1 = (Inr p, w2))"
    and "raises_no_project_exception P \<Longrightarrow> r = Inl (ProjectException m) \<Longrightarrow>
           live os cs (key_args h pt k) w' \<and> (\<exists>w1. prompt_project P (key_args h pt k) pn w1 = (Inl (ProjectException m), w'))"
proof -
  obtain rc w1 where c: "call_saas_connection P (key_args h pt k) w = (rc, w1)"
    by (cases "call_saas_connection P (key_args h pt k) w")
  note cb = call_saas_connection_balanced [OF b c]
  have "files w' = files w
      \<and> (r = Inl (RestAPIError m) \<longrightarrow> balanced os cs w')
      \<and> (r = Inr p \<longrightarrow> live os cs (key_args h pt k) w' \<and> (\<exists>w1 w2. prompt_project P (key_args h pt k) pn w1 = (Inr p, w2)))
      \<and> (raises_no_project_exception P \<longrightarrow> r = Inl (ProjectException m) \<longrightarrow>
           live os cs (key_args h pt k) w' \<and> (\<exists>w1. prompt_project P (key_args h pt k) pn w1 = (Inl (ProjectException m), w')))"
  proof (cases rc)
    case (Inl e)
    with cb have w1: "w1 = w" and e: "connect P (files w) (key_args h pt k) = Some e" by auto
    from l c Inl w1 have "(r, w') = connect_except e w"
      by (simp add: login_connect_def)
    with b e show ?thesis
      by (auto simp: connect_except_cases logout_balanced raises_no_project_exception_def
          split: if_splits)
  next
    case (Inr c')
    with cb have c': "c' = (key_args h pt k)" and lv: "live os cs (key_args h pt k) w1" and f1: "files w1 = files w" by auto
    obtain rp w2 where p: "prompt_project P (key_args h pt k) pn w1 = (rp, w2)"
      by (cases "prompt_project P (key_args h pt k) pn w1")
    from prompt_project_frame [OF p] have s: "session_eq w1 w2" .
    from live_session_eq [OF s lv] have lv2: "live os cs (key_args h pt k) w2" .
    from s f1 have f2: "files w2 = files w" by (simp add: session_eq_def)
    show ?thesis
    proof (cases rp)
      case (Inl e)
      with l c Inr c' p have "(r, w') = connect_except e w2"
        by (simp add: login_connect_def)
      with lv2 f2 p [unfolded Inl] show ?thesis
        by (auto simp: connect_except_cases logout_live split: if_splits)
           (simp_all add: logout_def live_def)
    next
      case (Inr q)
      with l c \<open>rc = Inr c'\<close> c' p have "r = Inr q" "w' = logged_in q w2"
        by (simp_all add: login_connect_def)
      with lv2 f2 p Inr show ?thesis
        using live_session_eq [OF session_eq_print lv2]
        by (auto simp: logged_in_def) (simp add: print_def)
    qed
  qed
  then show "files w' = files w"
    and "r = Inl (RestAPIError m) \<Longrightarrow> balanced os cs w'"
    and "r = Inr p \<Longrightarrow> live os cs (key_args h pt k) w' \<and> (\<exists>w1 w2. prompt_project P (key_args h pt k) pn w1 = (Inr p, w2))"
    and "raises_no_project_exception P \<Longrightarrow> r = Inl (ProjectException m) \<Longrightarrow>
           live os cs (key_args h pt k) w' \<and> (\<exists>w1. prompt_project P (key_args h pt k) pn w1 = (Inl (ProjectException m), w'))"
    by blast+
qed


lemma prompt_project_rest:
  assumes "prompt_project P c pn w = (Inl (RestAPIError m), w')"
  shows "w' = w \<and> get_projects P c = Inl (RestAPIError m)"
proof (cases "get_projects P c")
  case (Inl e)
  with assms show ?thesis by (auto simp: prompt_project_def)
next
  case (Inr ps)
  show ?thesis
  proof (cases "pn = None \<and> length ps \<noteq> 0 \<and> length ps \<noteq> 1")
    case True
    with assms Inr
    have "select_loop ps (print_projects 0 ps (print (NL @ ''Multiple projects found. '' @ NL) w))
            = (Inl (RestAPIError m), w')"
      by (simp add: prompt_project_def)
    from select_loop_frame [OF this] show ?thesis by auto
  next
    case False
    with assms Inr show ?thesis
      by (auto simp: prompt_project_def split: option.splits if_splits)
  qed
qed

lemma prompt_project_no_rest:
  assumes "\<forall>m. get_projects P c \<noteq> Inl (RestAPIError m)"
  shows "fst (prompt_project P c pn w) \<noteq> Inl (RestAPIError m)"
proof
  assume "fst (prompt_project P c pn w) = Inl (RestAPIError m)"
  then have "prompt_project P c pn w = (Inl (RestAPIError m), snd (prompt_project P c pn w))"
    by (metis prod.collapse)
  from prompt_project_rest [OF this] assms show False by simp
qed

lemma cached_except_cases:
  "cached_except e path w =
     (if \<exists>m. e = RestAPIError m then
        (if files w path = None then (Inl (Inl (OtherError ''FileNotFoundError'')), logout w)
         else (Inr (), (logout w)\<lparr>files := (files w)(path := None)\<rparr>))
      else (Inl (Inl e), w))"
  by (cases e) (auto simp: cached_except_def os_remove_def logout_def split: option.splits)

text \<open>The three ways through the login with the cached key file.\<close>

lemma login_cached_cases:
  assumes b: "balanced os cs w" and l: "login_cached P h pt pn path w = (r, w')"
  obtains (refused) e where "connect P (files w) (cached_args h pt path) = Some e" "(r, w') = cached_except e path w"
  | (failed) e w1 w2 where "connect P (files w) (cached_args h pt path) = None" "live os cs (cached_args h pt path) w1"
      "files w1 = files w" "environ w1 = environ w" "cwd w1 = cwd w" "stdin w1 = stdin w" "stdout w1 = stdout w"
      "prompt_project P (cached_args h pt path) pn w1 = (Inl e, w2)" "(r, w') = cached_except e path w2"
  | (selected) p w1 w2 where "connect P (files w) (cached_args h pt path) = None" "live os cs (cached_args h pt path) w1"  "files w1 = files w"
      "prompt_project P (cached_args h pt path) pn w1 = (Inr p, w2)" "r = Inl (Inr p)" "w' = logged_in p w2"
proof -
  obtain rc w1 where c: "call_saas_connection P (cached_args h pt path) w = (rc, w1)"
    by (cases "call_saas_connection P (cached_args h pt path) w")
  note cb = call_saas_connection_balanced [OF b c]
  show thesis
  proof (cases rc)
    case (Inl e)
    with cb l c show thesis
      by (intro refused [of e]) (auto simp: login_cached_def)
  next
    case (Inr c')
    with cb have c': "c' = (cached_args h pt path)" by simp
    obtain rp w2 where p: "prompt_project P (cached_args h pt path) pn w1 = (rp, w2)"
      by (cases "prompt_project P (cached_args h pt path) pn w1")
    show thesis
    proof (cases rp)
      case (Inl e)
      with cb l c p Inr c' show thesis
        by (intro failed [of w1 e w2]) (auto simp: login_cached_def)
    next
      case (Inr q)
      with cb l c p \<open>rc = Inr c'\<close> c' show thesis
        by (intro selected [of w1 q w2]) (auto simp: login_cached_def)
    qed
  qed
qed




lemma logout_fields [simp]:
  "environ (logout w) = environ w" "cwd (logout w) = cwd w" "files (logout w) = files w"
  "stdin (logout w) = stdin w" "stdout (logout w) = stdout w" "opened (logout w) = opened w"
  by (simp_all add: logout_def split: option.splits)

lemma resolved_logout [simp]:
  "env_api_key a (logout w) = env_api_key a w" "login_project a (logout w) = login_project a w"
  "login_host a (logout w) = login_host a w" "login_port a (logout w) = login_port a w"
  "api_key_path (logout w) = api_key_path w"
  by (simp_all add: env_api_key_def login_project_def login_host_def login_port_def
      api_key_path_def cong: option.case_cong)

lemma login_external:
  assumes "environ w ''REST_ENDPOINT'' = None"
  shows "login P a w =
     (case login_api_key P a (env_api_key a w) (login_host a w) (login_port a w)
             (login_project a w) (logout w) of
        (Inl r, w1) \<Rightarrow> (r, w1)
      | (Inr api_key, w1) \<Rightarrow>
          (case login_ask_key api_key (login_host a w) (api_key_path w) w1 of
             (Inl e, w2) \<Rightarrow> (Inl e, w2)
           | (Inr api_key', w2) \<Rightarrow>
               login_connect P (login_host a w) (login_port a w) api_key'
                 (login_project a w) w2))"
  using assms by (simp add: login_def Let_def cong: prod.case_cong sum.case_cong)

lemma login_ask_key_cases:
  assumes "login_ask_key k h path w = (r, w')"
  obtains (kept) "\<not> (k = None \<and> h = default_host)" "r = Inr k" "w' = w"
  | (eof) "k = None" "h = default_host" "stdin w = []" "r = Inl EOFError"
      "w' = print (''Copy your Api Key (first register/login): ''
                     @ ''https://c.app.hopsworks.ai/account/api/generated'') w"
  | (asked) l ls where "k = None" "h = default_host" "stdin w = l # ls" "r = Inr (Some l)"
      "w' = (print (''Copy your Api Key (first register/login): ''
                     @ ''https://c.app.hopsworks.ai/account/api/generated'') w)
              \<lparr>stdin := ls, files := (files w)(path \<mapsto> strip l)\<rparr>"
  using assms
  by (cases "stdin w") (auto simp: login_ask_key_def getpass_def print_def split: if_splits)

lemma login_ask_key_balanced:
  assumes "login_ask_key k h path w = (r, w')" and "balanced os cs w"
  shows "balanced os cs w' \<and> environ w' = environ w \<and> cwd w' = cwd w
         \<and> (r = Inl EOFError \<or> (\<exists>k'. r = Inr k'))"
  using assms(1)
  by (cases rule: login_ask_key_cases) (use assms(2) in \<open>auto simp: balanced_def print_def\<close>)




lemmas login_eval =
  login_def login_inside_def login_api_key_def login_cached_def cached_except_def os_remove_def
  login_ask_key_def getpass_def login_connect_def connect_except_def call_saas_connection_def
  prompt_project_def logout_def print_def logged_in_def env_api_key_def login_project_def
  login_host_def login_port_def port_param_def api_key_path_def default_host_def
  fresh_world_def no_args_def showing_def checking_key_def failing_def Let_def









lemmas strip_eval = strip_def isspace_def




lemma strip_id:
  assumes "l \<noteq> []" and "\<not> isspace (hd l)" and "\<not> isspace (last l)"
  shows "strip l = l"
proof -
  from assms(1,2) have 1: "dropWhile isspace l = l"
    by (cases l) simp_all
  from assms(1,3) have 2: "dropWhile isspace (rev l) = rev l"
    by (cases "rev l") (simp_all add: last_rev [symmetric] del: last_rev)
  show ?thesis by (simp add: strip_def 1 2)
qed

lemma login_cached_accepted:
  assumes b: "balanced os cs w"
    and acc: "connect P (files w) (cached_args h pt path) = None"
      "\<forall>m. get_projects P (cached_args h pt path) \<noteq> Inl (RestAPIError m)"
    and l: "login_cached P h pt pn path w = (rc, w')"
  shows "(\<exists>x. rc = Inl x) \<and> live os cs (cached_args h pt path) w' \<and> files w' = files w"
  using b l
proof (cases rule: login_cached_cases)
  case (refused e)
  with acc(1) show ?thesis by simp
next
  case (failed e w1 w2)
  from prompt_project_frame [OF failed(8)] have s: "session_eq w1 w2" .
  from prompt_project_no_rest [OF acc(2), of pn w1] failed(8)
  have "\<not> (\<exists>m. e = RestAPIError m)" by auto
  with failed(9) have "rc = Inl (Inl e)" "w' = w2"
    by (simp_all add: cached_except_cases)
  with live_session_eq [OF s failed(2)] s failed(3) show ?thesis
    by (simp add: session_eq_def)
next
  case (selected p w1 w2)
  from prompt_project_frame [OF selected(4)] have s: "session_eq w1 w2" .
  have "live os cs (cached_args h pt path) (logged_in p w2)"
    unfolding logged_in_def
    by (rule live_session_eq [OF session_eq_print live_session_eq [OF s selected(2)]])
  moreover have "files (logged_in p w2) = files w"
    using s selected(3) by (simp add: logged_in_def session_eq_def print_def)
  ultimately show ?thesis
    using selected(5,6) by simp
qed

text \<open>
  C5, as the code has it. A login that asks for the key (external path, default host, no key
  argument, no \<^verbatim>\<open>HOPSWORKS_API_KEY\<close>, no cache file yet) writes the entered key, stripped of
  surrounding whitespace, to the cache file. A later login in a state with the same files and
  working directory, again for the default host and with no key argument, whose connection
  with the cache file is accepted, is connected with that file, which still holds the
  stripped key. The stripped key is the entered key when that neither starts nor ends with
  whitespace.
\<close>

theorem login_cache_round_trip:
  assumes ext: "environ w ''REST_ENDPOINT'' = None"
    and args: "api_key_value a = None" "api_key_file a = None"
    and host: "login_host a w = default_host"
    and nokey: "environ w ''HOPSWORKS_API_KEY'' = None"
    and nocache: "files w (api_key_path w) = None"
    and typed: "stdin w = l # ls"
    and first: "login P a w = (r, w1)"
    and restart: "files w2 = files w1" "cwd w2 = cwd w"
    and ext2: "environ w2 ''REST_ENDPOINT'' = None"
    and args2: "api_key_value a2 = None" "api_key_file a2 = None"
    and host2: "login_host a2 w2 = default_host"
    and accepted:
      "connect P2 (files w2) (cached_args default_host (login_port a2 w2) (api_key_path w))
         = None"
      "\<forall>m. get_projects P2 (cached_args default_host (login_port a2 w2) (api_key_path w))
         \<noteq> Inl (RestAPIError m)"
    and second: "login P2 a2 w2 = (r2, w3)"
  shows "files w1 (api_key_path w) = Some (strip l)
         \<and> saas_connection w3
             = Some (cached_args default_host (login_port a2 w2) (api_key_path w))
         \<and> files w3 (api_key_path w) = Some (strip l)
         \<and> (l \<noteq> [] \<and> \<not> isspace (hd l) \<and> \<not> isspace (last l) \<longrightarrow> strip l = l)"
proof -
  let ?path = "api_key_path w"
  have b0: "balanced (opened w) (closed (logout w)) (logout w)"
    by (rule balanced_logout)
  have key: "login_api_key P a (env_api_key a w) (login_host a w) (login_port a w)
      (login_project a w) (logout w) = (Inr None, logout w)"
    using args nokey nocache by (simp add: login_api_key_def env_api_key_def)
  let ?w' = "(print (''Copy your Api Key (first register/login): ''
                     @ ''https://c.app.hopsworks.ai/account/api/generated'') (logout w))
              \<lparr>stdin := ls, files := (files w)(?path \<mapsto> strip l)\<rparr>"
  have ask: "login_ask_key None default_host ?path (logout w) = (Inr (Some l), ?w')"
    using typed by (simp add: login_ask_key_def getpass_def print_def)
  from login_ask_key_balanced [OF ask b0]
  have b1: "balanced (opened w) (closed (logout w)) ?w'" by simp
  from first ext key ask host
  have "login_connect P default_host (login_port a w) (Some l) (login_project a w) ?w' = (r, w1)"
    by (simp add: login_external)
  from login_connect_outcome(1) [OF b1 this]
  have f1: "files w1 = (files w)(?path \<mapsto> strip l)" by simp
  have p2: "api_key_path w2 = ?path"
    using restart(2) by (simp add: api_key_path_def)
  have b2: "balanced (opened w2) (closed (logout w2)) (logout w2)"
    by (rule balanced_logout)
  obtain rc w' where c: "login_cached P2 default_host (login_port a2 w2) (login_project a2 w2)
      ?path (logout w2) = (rc, w')"
    by (cases "login_cached P2 default_host (login_port a2 w2) (login_project a2 w2)
      ?path (logout w2)")
  from accepted
  have "connect P2 (files (logout w2)) (cached_args default_host (login_port a2 w2) ?path) = None"
    by simp
  from login_cached_accepted [OF b2 this accepted(2) c]
  obtain x where x: "rc = Inl x"
    and lv: "live (opened w2) (closed (logout w2))
               (cached_args default_host (login_port a2 w2) ?path) w'"
    and f': "files w' = files w2"
    by auto
  have "login_api_key P2 a2 (env_api_key a2 w2) (login_host a2 w2) (login_port a2 w2)
      (login_project a2 w2) (logout w2) = (Inl x, w')"
    using args2 host2 restart(1) f1 p2 c x by (simp add: login_api_key_def)
  with second ext2 have "w3 = w'"
    by (simp add: login_external)
  with lv f' restart(1) f1 strip_id [of l] show ?thesis
    by (auto simp: live_def)
qed


theorem login_cache_round_trip_witness:
  "login (checking_key ''fresh-key'' [project_a]) no_args (fresh_world\<lparr>stdin := [''fresh-key'']\<rparr>)
     = (Inr project_a,
        fresh_world\<lparr>files := [''/home/user/.hw_api_key'' \<mapsto> ''fresh-key''],
          stdout := [''Copy your Api Key (first register/login): https://c.app.hopsworks.ai/account/api/generated'' @ NL,
                     NL @ ''Logged in to project, explore it here https://c.app.hopsworks.ai/p/1'' @ NL],
          saas_connection := Some (key_args ''c.app.hopsworks.ai'' (PortInt 443) (Some ''fresh-key'')),
          opened := [key_args ''c.app.hopsworks.ai'' (PortInt 443) (Some ''fresh-key'')]\<rparr>)
   \<and> login (checking_key ''fresh-key'' [project_a]) no_args
       (fresh_world\<lparr>files := [''/home/user/.hw_api_key'' \<mapsto> ''fresh-key'']\<rparr>)
     = (Inr project_a,
        fresh_world\<lparr>files := [''/home/user/.hw_api_key'' \<mapsto> ''fresh-key''],
          stdout := [NL @ ''Logged in to project, explore it here https://c.app.hopsworks.ai/p/1'' @ NL],
          saas_connection := Some (cached_args ''c.app.hopsworks.ai'' (PortInt 443) ''/home/user/.hw_api_key''),
          opened := [cached_args ''c.app.hopsworks.ai'' (PortInt 443) ''/home/user/.hw_api_key'']\<rparr>)
   \<and> strip ''fresh-key'' = ''fresh-key''"
proof -
  let ?P = "checking_key ''fresh-key'' [project_a]"
  let ?w = "fresh_world\<lparr>stdin := [''fresh-key'']\<rparr>"
  let ?w1 = "fresh_world\<lparr>files := [''/home/user/.hw_api_key'' \<mapsto> ''fresh-key''],
          stdout := [''Copy your Api Key (first register/login): https://c.app.hopsworks.ai/account/api/generated'' @ NL,
                     NL @ ''Logged in to project, explore it here https://c.app.hopsworks.ai/p/1'' @ NL],
          saas_connection := Some (key_args ''c.app.hopsworks.ai'' (PortInt 443) (Some ''fresh-key'')),
          opened := [key_args ''c.app.hopsworks.ai'' (PortInt 443) (Some ''fresh-key'')]\<rparr>"
  let ?w2 = "fresh_world\<lparr>files := [''/home/user/.hw_api_key'' \<mapsto> ''fresh-key'']\<rparr>"
  let ?w3 = "fresh_world\<lparr>files := [''/home/user/.hw_api_key'' \<mapsto> ''fresh-key''],
          stdout := [NL @ ''Logged in to project, explore it here https://c.app.hopsworks.ai/p/1'' @ NL],
          saas_connection := Some (cached_args ''c.app.hopsworks.ai'' (PortInt 443) ''/home/user/.hw_api_key''),
          opened := [cached_args ''c.app.hopsworks.ai'' (PortInt 443) ''/home/user/.hw_api_key'']\<rparr>"
  have e: "environ ?w ''REST_ENDPOINT'' = None" "environ ?w2 ''REST_ENDPOINT'' = None"
    by (simp_all add: fresh_world_def)
  have a: "api_key_value no_args = None" "api_key_file no_args = None"
    by (simp_all add: no_args_def)
  have h: "login_host no_args ?w = default_host" "login_host no_args ?w2 = default_host"
    by (simp_all add: login_host_def no_args_def fresh_world_def)
  have k: "environ ?w ''HOPSWORKS_API_KEY'' = None"
    by (simp add: fresh_world_def)
  have c: "files ?w (api_key_path ?w) = None"
    by (simp add: api_key_path_def fresh_world_def)
  have t: "stdin ?w = ''fresh-key'' # []"
    by (simp add: fresh_world_def)
  have l1: "login ?P no_args ?w = (Inr project_a, ?w1)"
    by (simp add: login_eval strip_eval project_a_def)
  have s: "files ?w2 = files ?w1" "cwd ?w2 = cwd ?w"
    by (simp_all add: fresh_world_def)
  have acc: "connect ?P (files ?w2) (cached_args default_host (login_port no_args ?w2) (api_key_path ?w)) = None"
    "\<forall>m. get_projects ?P (cached_args default_host (login_port no_args ?w2) (api_key_path ?w))
         \<noteq> Inl (RestAPIError m)"
    by (simp_all add: checking_key_def api_key_path_def fresh_world_def)
  have l2: "login ?P no_args ?w2 = (Inr project_a, ?w3)"
    by (simp add: login_eval project_a_def)
  from login_cache_round_trip [OF e(1) a h(1) k c t l1 s e(2) a h(2) acc l2] l1 l2
  show ?thesis
    by (simp add: strip_eval)
qed

text \<open>
  C5, as the claim states it, fails: a key typed with a space at its end is used as typed for
  the connection, and the cache file holds it without the space.
\<close>

theorem login_cache_round_trip_counterexample:
  "fst (login (showing [project_a]) no_args (fresh_world\<lparr>stdin := [''fresh-key '']\<rparr>))
     = Inr project_a
   \<and> saas_connection (snd (login (showing [project_a]) no_args
        (fresh_world\<lparr>stdin := [''fresh-key '']\<rparr>)))
     = Some (key_args ''c.app.hopsworks.ai'' (PortInt 443) (Some ''fresh-key ''))
   \<and> files (snd (login (showing [project_a]) no_args
        (fresh_world\<lparr>stdin := [''fresh-key '']\<rparr>))) ''/home/user/.hw_api_key''
     = Some ''fresh-key''
   \<and> ''fresh-key'' \<noteq> ''fresh-key ''"
  by (simp add: login_eval strip_eval project_a_def)








end
